theory Spec2Isabelle
  imports Main "HOL-Library.AList" "HOL-Library.Sublist"
begin

section \<open>The registry of utils/registry.py\<close>

text \<open>
  The module holds one class, \<^verbatim>\<open>Registry\<close>: a name and a dict from upper-cased names to
  registered objects. The embedding follows the class method by method. A method takes the
  registry it is called on and returns its outcome together with the registry as the call
  leaves it, so that what a call that raises does to the state can be stated as well.
  \<^verbatim>\<open>__str__\<close>, which only reads the registry to print it, is left out.
\<close>

subsection \<open>Python values and exceptions\<close>

text \<open>
  The objects that reach the registry: \<^verbatim>\<open>None\<close>, strings, integers (standing for any object
  that has neither a \<^verbatim>\<open>__name__\<close> nor an \<^verbatim>\<open>upper\<close> attribute) and definitions, that is class
  or function objects. A definition has an identity (its address) and its \<^verbatim>\<open>__name__\<close>, so
  two definitions of the same name are different objects. Definitions are taken to have no
  attribute called \<^verbatim>\<open>upper\<close>.
\<close>

datatype pyobj =
    PyNone
  | PyStr string
  | PyInt int
  | PyDef nat string

text \<open>
  The exceptions of the module: the \<^verbatim>\<open>assert\<close> of \<^verbatim>\<open>_do_register\<close> and the \<^verbatim>\<open>KeyError\<close> of
  \<^verbatim>\<open>get\<close> carry their message; an \<^verbatim>\<open>AttributeError\<close> carries the attribute that was missing.
  Assertions are taken to be enabled (the interpreter's default; \<^verbatim>\<open>python -O\<close> removes them).
\<close>

datatype error =
    AttributeError string
  | AssertionError string
  | KeyError string

type_synonym 'a result = "error + 'a"

subsection \<open>Strings: upper, repr, format\<close>

text \<open>
  Names are ASCII strings. \<^verbatim>\<open>str.upper\<close> maps \<^verbatim>\<open>a\<close>..\<^verbatim>\<open>z\<close> to \<^verbatim>\<open>A\<close>..\<^verbatim>\<open>Z\<close> and keeps every other
  ASCII character. The characters of \<^typ>\<open>char\<close> from 128 on stand for no Python character
  here; \<open>upper\<close> and \<open>repr\<close> keep them as they are.
\<close>

definition upper_char :: "char \<Rightarrow> char" where
  "upper_char c =
     (let n = (of_char c :: nat)
      in if 97 \<le> n \<and> n \<le> 122 then char_of (n - 32) else c)"

definition upper :: "string \<Rightarrow> string" where
  "upper s = map upper_char s"

text \<open>\<^verbatim>\<open>name.upper()\<close> on an arbitrary object: only a string has the method.\<close>

fun call_upper :: "pyobj \<Rightarrow> string result" where
  "call_upper (PyStr s) = Inr (upper s)"
| "call_upper _ = Inl (AttributeError ''upper'')"

text \<open>\<^verbatim>\<open>obj.__name__\<close>: only a class or a function has the attribute.\<close>

fun dunder_name :: "pyobj \<Rightarrow> pyobj result" where
  "dunder_name (PyDef a n) = Inr (PyStr n)"
| "dunder_name _ = Inl (AttributeError ''__name__'')"

text \<open>
  \<^verbatim>\<open>repr\<close> of a string, as CPython's \<^verbatim>\<open>unicode_repr\<close> computes it: the quote is \<^verbatim>\<open>"\<close> when the
  string has a \<^verbatim>\<open>'\<close> and no \<^verbatim>\<open>"\<close>, else \<^verbatim>\<open>'\<close>; the quote and the backslash are escaped by a
  backslash, tab, newline and carriage return are written \<^verbatim>\<open>\t\<close>, \<^verbatim>\<open>\n\<close>, \<^verbatim>\<open>\r\<close>, and the other
  control characters \<^verbatim>\<open>\xhh\<close>.
\<close>

definition squote :: char where
  "squote = CHR 0x27"

definition dquote :: char where
  "dquote = CHR 0x22"

definition backslash :: char where
  "backslash = CHR 0x5C"

definition hexdigit :: "nat \<Rightarrow> char" where
  "hexdigit n = ''0123456789abcdef'' ! (n mod 16)"

definition repr_char :: "char \<Rightarrow> char \<Rightarrow> string" where
  "repr_char quote c =
     (let n = (of_char c :: nat)
      in if c = quote \<or> c = backslash then [backslash, c]
         else if n = 9 then [backslash, CHR ''t'']
         else if n = 10 then [backslash, CHR ''n'']
         else if n = 13 then [backslash, CHR ''r'']
         else if n < 32 \<or> n = 127 then [backslash, CHR ''x'', hexdigit (n div 16), hexdigit n]
         else [c])"

definition repr :: "string \<Rightarrow> string" where
  "repr s =
     (let quote = (if squote \<in> set s \<and> dquote \<notin> set s then dquote else squote)
      in [quote] @ concat (map (repr_char quote) s) @ [quote])"

text \<open>\<^verbatim>\<open>sep.join(xs)\<close>.\<close>

fun join :: "string \<Rightarrow> string list \<Rightarrow> string" where
  "join sep [] = []"
| "join sep [x] = x"
| "join sep (x # y # ys) = x @ sep @ join sep (y # ys)"

text \<open>
  \<^verbatim>\<open>str(d.keys())\<close> for a dict whose keys are strings: \<^verbatim>\<open>dict_keys(['A', 'B'])\<close>, the keys in
  insertion order.
\<close>

definition str_dict_keys :: "string list \<Rightarrow> string" where
  "str_dict_keys ks = ''dict_keys(['' @ join '', '' (map repr ks) @ ''])''"

text \<open>The pattern \<^verbatim>\<open>'{}'\<close> of the two format strings, filled in.\<close>

definition quoted :: "string \<Rightarrow> string" where
  "quoted s = [squote] @ s @ [squote]"

text \<open>
  \<^verbatim>\<open>"An object named '{}' was already registered in '{}' registry!".format(upper_name, self._name)\<close>
\<close>

definition already_registered_msg :: "string \<Rightarrow> string \<Rightarrow> string" where
  "already_registered_msg upper_name self_name' =
     ''An object named '' @ quoted upper_name @ '' was already registered in ''
       @ quoted self_name' @ '' registry!''"

text \<open>
  \<^verbatim>\<open>"No object named '{}' found in '{}' registry[{}]!".format(name.upper(), self._name, self._obj_map.keys())\<close>
\<close>

definition not_found_msg :: "string \<Rightarrow> string \<Rightarrow> string list \<Rightarrow> string" where
  "not_found_msg upper_name self_name' ks =
     ''No object named '' @ quoted upper_name @ '' found in '' @ quoted self_name'
       @ '' registry['' @ str_dict_keys ks @ '']!''"

subsection \<open>The dict\<close>

text \<open>
  A Python dict keeps its keys in insertion order, and the order shows in the message of
  \<^verbatim>\<open>get\<close>, so the dict is an association list. \<^verbatim>\<open>d[k] = v\<close> replaces the value of a key
  that is there, in place, and appends a new key at the end; \<^verbatim>\<open>d.get(k)\<close> is \<^verbatim>\<open>None\<close> for a
  key that is not there.
\<close>

type_synonym pydict = "(string \<times> pyobj) list"

definition dict_keys :: "pydict \<Rightarrow> string list" where
  "dict_keys d = map fst d"

definition dict_contains :: "pydict \<Rightarrow> string \<Rightarrow> bool" where
  "dict_contains d k = (k \<in> set (dict_keys d))"

definition dict_setitem :: "pydict \<Rightarrow> string \<Rightarrow> pyobj \<Rightarrow> pydict" where
  "dict_setitem d k v = AList.update k v d"

definition dict_get :: "pydict \<Rightarrow> string \<Rightarrow> pyobj" where
  "dict_get d k = (case map_of d k of None \<Rightarrow> PyNone | Some v \<Rightarrow> v)"

subsection \<open>The class\<close>

record registry =
  self_name :: string
  self_obj_map :: pydict

text \<open>\<^verbatim>\<open>__init__\<close>\<close>

definition Registry :: "string \<Rightarrow> registry" where
  "Registry name = \<lparr>self_name = name, self_obj_map = []\<rparr>"

text \<open>
  \<^verbatim>\<open>_do_register\<close>: \<^verbatim>\<open>name.upper()\<close> may raise; the assertion is checked before the dict is
  written.
\<close>

definition do_register :: "registry \<Rightarrow> pyobj \<Rightarrow> pyobj \<Rightarrow> unit result \<times> registry" where
  "do_register self name obj =
     (case call_upper name of
        Inl e \<Rightarrow> (Inl e, self)
      | Inr upper_name \<Rightarrow>
          if \<not> (\<not> dict_contains (self_obj_map self) upper_name)
          then (Inl (AssertionError (already_registered_msg upper_name (self_name self))), self)
          else (Inr (), self\<lparr>self_obj_map := dict_setitem (self_obj_map self) upper_name obj\<rparr>))"

text \<open>
  The name both modes register under:
  \<^verbatim>\<open>module_name if module_name is not None else obj.__name__\<close>.
\<close>

definition name_for :: "pyobj \<Rightarrow> pyobj \<Rightarrow> pyobj result" where
  "name_for module_name obj =
     (if module_name \<noteq> PyNone then Inr module_name else dunder_name obj)"

text \<open>
  The closure \<^verbatim>\<open>deco\<close> that \<^verbatim>\<open>register\<close> builds. It captures \<^verbatim>\<open>module_name\<close> and the registry
  object; it runs on the registry as it is when the closure is applied.
\<close>

definition deco :: "pyobj \<Rightarrow> registry \<Rightarrow> pyobj \<Rightarrow> pyobj result \<times> registry" where
  "deco module_name self func_or_class =
     (case name_for module_name func_or_class of
        Inl e \<Rightarrow> (Inl e, self)
      | Inr name \<Rightarrow>
          (case do_register self name func_or_class of
             (Inl e, self') \<Rightarrow> (Inl e, self')
           | (Inr u, self') \<Rightarrow> (Inr func_or_class, self')))"

text \<open>
  What \<^verbatim>\<open>register\<close> returns: the closure, with the \<^verbatim>\<open>module_name\<close> it captured, or \<^verbatim>\<open>None\<close>
  (the function call falls off the end of the method).
\<close>

datatype returned =
    Returned_deco pyobj
  | Returned_None

definition register :: "registry \<Rightarrow> pyobj \<Rightarrow> pyobj \<Rightarrow> returned result \<times> registry" where
  "register self module_name obj =
     (if obj = PyNone then (Inr (Returned_deco module_name), self)
      else
        (case name_for module_name obj of
           Inl e \<Rightarrow> (Inl e, self)
         | Inr name \<Rightarrow>
             (case do_register self name obj of
                (Inl e, self') \<Rightarrow> (Inl e, self')
              | (Inr u, self') \<Rightarrow> (Inr Returned_None, self'))))"

text \<open>
  \<^verbatim>\<open>get\<close>. The source evaluates \<^verbatim>\<open>name.upper()\<close> once for the lookup and once more for the
  message; the two values are the same.
\<close>

definition get :: "registry \<Rightarrow> pyobj \<Rightarrow> pyobj result \<times> registry" where
  "get self name =
     (case call_upper name of
        Inl e \<Rightarrow> (Inl e, self)
      | Inr upper_name \<Rightarrow>
          (let ret = dict_get (self_obj_map self) upper_name
           in if ret = PyNone
              then (Inl (KeyError (not_found_msg upper_name (self_name self)
                                     (dict_keys (self_obj_map self)))), self)
              else (Inr ret, self)))"

text \<open>\<^verbatim>\<open>__getitem__\<close>\<close>

definition getitem :: "registry \<Rightarrow> pyobj \<Rightarrow> pyobj result \<times> registry" where
  "getitem self name = get self name"

subsection \<open>Sequences of calls\<close>

text \<open>
  What a program can do with a registry through the methods above: call \<^verbatim>\<open>register\<close>, apply a
  decorator that \<^verbatim>\<open>register\<close> returned (it only holds the \<^verbatim>\<open>module_name\<close> it was built
  with), call \<^verbatim>\<open>get\<close>, index the registry. \<open>exec\<close> is the registry after one call, whether
  the call returned or raised (a caller that catches the exception goes on with that
  registry), and \<open>run\<close> the registry after a sequence of calls.
\<close>

datatype call =
    Call_register pyobj pyobj
  | Call_deco pyobj pyobj
  | Call_get pyobj
  | Call_getitem pyobj

fun exec :: "registry \<Rightarrow> call \<Rightarrow> registry" where
  "exec self (Call_register module_name obj) = snd (register self module_name obj)"
| "exec self (Call_deco module_name func_or_class) = snd (deco module_name self func_or_class)"
| "exec self (Call_get name) = snd (get self name)"
| "exec self (Call_getitem name) = snd (getitem self name)"

definition run :: "registry \<Rightarrow> call list \<Rightarrow> registry" where
  "run self cs = foldl exec self cs"

section \<open>Properties\<close>

subsection \<open>Upper-casing and the dict\<close>

lemma upper_char_idem: "upper_char (upper_char c) = upper_char c"
proof (cases "97 \<le> (of_char c :: nat) \<and> (of_char c :: nat) \<le> 122")
  case True
  define n where "n = (of_char c :: nat)"
  from True have range: "97 \<le> n" "n \<le> 122"
    by (simp_all add: n_def)
  then have small: "(n - 32) mod 256 = n - 32"
    by (intro mod_less) arith
  from range have upper_c: "upper_char c = char_of (n - 32)"
    by (simp add: upper_char_def n_def)
  from range have "\<not> 97 \<le> n - 32"
    by arith
  then have "upper_char (char_of (n - 32)) = char_of (n - 32)"
    by (simp add: upper_char_def small)
  with upper_c show ?thesis
    by simp
next
  case False
  then have "upper_char c = c"
    by (auto simp: upper_char_def Let_def)
  then show ?thesis
    by simp
qed

lemma upper_idem: "upper (upper s) = upper s"
  by (simp add: upper_def upper_char_idem)

lemma dict_setitem_fresh:
  "\<not> dict_contains d k \<Longrightarrow> dict_setitem d k v = d @ [(k, v)]"
  by (induction d) (auto simp: dict_contains_def dict_keys_def dict_setitem_def)

lemma dict_contains_map_of:
  "dict_contains d k \<longleftrightarrow> map_of d k \<noteq> None"
  by (simp add: dict_contains_def dict_keys_def map_of_eq_None_iff)

lemma dict_get_fresh:
  "\<not> dict_contains d k \<Longrightarrow> dict_get d k = PyNone"
  by (simp add: dict_contains_map_of dict_get_def)

lemma map_of_append_fresh:
  "map_of d k = Some v \<Longrightarrow> map_of (d @ [(k', v')]) k = Some v"
  by (simp add: map_add_Some_iff)

lemma do_register_fresh:
  "\<not> dict_contains (self_obj_map self) (upper s) \<Longrightarrow>
   do_register self (PyStr s) obj =
     (Inr (), self\<lparr>self_obj_map := self_obj_map self @ [(upper s, obj)]\<rparr>)"
  by (simp add: do_register_def dict_setitem_fresh)

lemma do_register_duplicate:
  "dict_contains (self_obj_map self) (upper s) \<Longrightarrow>
   do_register self (PyStr s) obj =
     (Inl (AssertionError (already_registered_msg (upper s) (self_name self))), self)"
  by (simp add: do_register_def)

lemma do_register_not_str:
  "(\<forall>s. name \<noteq> PyStr s) \<Longrightarrow>
   do_register self name obj = (Inl (AttributeError ''upper''), self)"
  by (cases name) (simp_all add: do_register_def)

lemma dict_get_present:
  "map_of d k = Some v \<Longrightarrow> dict_get d k = v"
  by (simp add: dict_get_def)

lemma dict_contains_append:
  "dict_contains (d @ [(k, v)]) k' \<longleftrightarrow> k' = k \<or> dict_contains d k'"
  by (auto simp: dict_contains_def dict_keys_def)

lemma map_of_append_new:
  "\<not> dict_contains d k \<Longrightarrow> map_of (d @ [(k, v)]) k = Some v"
  by (simp add: dict_contains_map_of map_add_Some_iff)

lemma get_present:
  "map_of (self_obj_map self) (upper s) = Some v \<Longrightarrow> v \<noteq> PyNone \<Longrightarrow>
   get self (PyStr s) = (Inr v, self)"
  by (simp add: get_def dict_get_present)

lemma get_absent:
  "\<not> dict_contains (self_obj_map self) (upper s) \<Longrightarrow>
   get self (PyStr s) =
     (Inl (KeyError (not_found_msg (upper s) (self_name self) (dict_keys (self_obj_map self)))),
      self)"
  by (simp add: get_def dict_get_fresh)

lemma get_stored_None:
  "map_of (self_obj_map self) (upper s) = Some PyNone \<Longrightarrow>
   get self (PyStr s) =
     (Inl (KeyError (not_found_msg (upper s) (self_name self) (dict_keys (self_obj_map self)))),
      self)"
  by (simp add: get_def dict_get_present)

lemma get_state: "snd (get self name) = self"
  by (cases name) (simp_all add: get_def Let_def)

subsection \<open>One call\<close>

text \<open>
  A call leaves the registry as it was or appends one entry, under a key that was not there
  and that is its own upper-case form.
\<close>

lemma do_register_step:
  "snd (do_register self name obj) = self \<or>
   (\<exists>s. name = PyStr s \<and> \<not> dict_contains (self_obj_map self) (upper s) \<and>
        snd (do_register self name obj) =
          self\<lparr>self_obj_map := self_obj_map self @ [(upper s, obj)]\<rparr>)"
proof (cases name)
  case (PyStr s)
  show ?thesis
  proof (cases "dict_contains (self_obj_map self) (upper s)")
    case True
    with PyStr show ?thesis
      by (simp add: do_register_duplicate)
  next
    case False
    with PyStr show ?thesis
      by (simp add: do_register_fresh)
  qed
qed (simp_all add: do_register_def)

lemma deco_state:
  "snd (deco m self func_or_class) =
     (case name_for m func_or_class of
        Inl e \<Rightarrow> self
      | Inr name \<Rightarrow> snd (do_register self name func_or_class))"
  by (simp add: deco_def split: sum.splits prod.splits)

lemma register_state:
  "snd (register self m obj) =
     (if obj = PyNone then self
      else case name_for m obj of
             Inl e \<Rightarrow> self
           | Inr name \<Rightarrow> snd (do_register self name obj))"
  by (simp add: register_def split: sum.splits prod.splits)

lemma exec_step:
  "exec self c = self \<or>
   (\<exists>k v. \<not> dict_contains (self_obj_map self) k \<and> upper k = k \<and>
          exec self c = self\<lparr>self_obj_map := self_obj_map self @ [(k, v)]\<rparr>)"
proof -
  have reg: "snd (do_register self name obj) = self \<or>
     (\<exists>k v. \<not> dict_contains (self_obj_map self) k \<and> upper k = k \<and>
            snd (do_register self name obj) = self\<lparr>self_obj_map := self_obj_map self @ [(k, v)]\<rparr>)"
    for name obj
    using do_register_step [of self name obj] upper_idem by blast
  show ?thesis
  proof (cases c)
    case (Call_register m obj)
    then show ?thesis
      using reg by (simp add: register_state split: sum.splits)
  next
    case (Call_deco m func_or_class)
    then show ?thesis
      using reg by (simp add: deco_state split: sum.splits)
  next
    case (Call_get name)
    then show ?thesis
      by (simp add: get_state)
  next
    case (Call_getitem name)
    then show ?thesis
      by (simp add: getitem_def get_state)
  qed
qed

subsection \<open>Sequences of calls: what is kept\<close>

lemma run_Nil: "run self [] = self"
  by (simp add: run_def)

lemma run_Cons: "run self (c # cs) = run (exec self c) cs"
  by (simp add: run_def)

lemma run_append: "run self (cs @ cs') = run (run self cs) cs'"
  by (simp add: run_def)

lemma exec_keeps_entry:
  "map_of (self_obj_map self) k = Some v \<Longrightarrow> map_of (self_obj_map (exec self c)) k = Some v"
  using exec_step [of self c] by (auto simp: map_of_append_fresh)

lemma exec_keys_upper:
  "\<forall>k \<in> set (dict_keys (self_obj_map self)). upper k = k \<Longrightarrow>
   \<forall>k \<in> set (dict_keys (self_obj_map (exec self c))). upper k = k"
  using exec_step [of self c] by (auto simp: dict_keys_def)

lemma exec_distinct:
  "distinct (dict_keys (self_obj_map self)) \<Longrightarrow>
   distinct (dict_keys (self_obj_map (exec self c)))"
  using exec_step [of self c] by (auto simp: dict_keys_def dict_contains_def)

lemma run_keeps_entry:
  "map_of (self_obj_map self) k = Some v \<Longrightarrow> map_of (self_obj_map (run self cs)) k = Some v"
  by (induction cs arbitrary: self) (simp_all add: run_Nil run_Cons exec_keeps_entry)

lemma run_keys_upper:
  "\<forall>k \<in> set (dict_keys (self_obj_map self)). upper k = k \<Longrightarrow>
   \<forall>k \<in> set (dict_keys (self_obj_map (run self cs))). upper k = k"
proof (induction cs arbitrary: self)
  case Nil
  then show ?case by (simp add: run_Nil)
next
  case (Cons c cs)
  from Cons.prems have "\<forall>k \<in> set (dict_keys (self_obj_map (exec self c))). upper k = k"
    by (rule exec_keys_upper)
  then show ?case
    unfolding run_Cons by (rule Cons.IH)
qed

lemma run_distinct:
  "distinct (dict_keys (self_obj_map self)) \<Longrightarrow>
   distinct (dict_keys (self_obj_map (run self cs)))"
  by (induction cs arbitrary: self) (simp_all add: run_Nil run_Cons exec_distinct)

subsection \<open>What the message of get holds\<close>

lemma sublist_join:
  "k \<in> set ks \<Longrightarrow> sublist k (join sep ks)"
proof (induction sep ks rule: join.induct)
  case (1 sep)
  then show ?case by simp
next
  case (2 sep x)
  then show ?case by simp
next
  case (3 sep x y ys)
  show ?case
  proof (cases "k = x")
    case True
    then show ?thesis by simp
  next
    case False
    with 3 have "sublist k (join sep (y # ys))"
      by simp
    then obtain ps ss where "join sep (y # ys) = ps @ k @ ss"
      by (auto simp: sublist_def)
    then have "join sep (x # y # ys) = (x @ sep @ ps) @ k @ ss"
      by simp
    then show ?thesis
      unfolding sublist_def by blast
  qed
qed

lemma sublist_within:
  assumes "sublist xs ys" and "sublist ys zs"
  shows "sublist xs zs"
proof -
  from assms obtain ps ss ps' ss' where "ys = ps @ xs @ ss" and "zs = ps' @ ys @ ss'"
    by (auto simp: sublist_def)
  then have "zs = (ps' @ ps) @ xs @ (ss @ ss')"
    by simp
  then show ?thesis
    unfolding sublist_def by blast
qed

lemma sublist_not_found_msg:
  "sublist (quoted upper_name) (not_found_msg upper_name n ks)"
  "sublist (quoted n) (not_found_msg upper_name n ks)"
  "sublist (str_dict_keys ks) (not_found_msg upper_name n ks)"
proof -
  have "not_found_msg upper_name n ks =
          ''No object named '' @ quoted upper_name @
          ('' found in '' @ quoted n @ '' registry['' @ str_dict_keys ks @ '']!'')"
    by (simp add: not_found_msg_def)
  then show "sublist (quoted upper_name) (not_found_msg upper_name n ks)"
    unfolding sublist_def by blast
  have "not_found_msg upper_name n ks =
          (''No object named '' @ quoted upper_name @ '' found in '') @ quoted n @
          ('' registry['' @ str_dict_keys ks @ '']!'')"
    by (simp add: not_found_msg_def)
  then show "sublist (quoted n) (not_found_msg upper_name n ks)"
    unfolding sublist_def by blast
  have "not_found_msg upper_name n ks =
          (''No object named '' @ quoted upper_name @ '' found in '' @ quoted n @ '' registry['')
          @ str_dict_keys ks @ '']!''"
    by (simp add: not_found_msg_def)
  then show "sublist (str_dict_keys ks) (not_found_msg upper_name n ks)"
    unfolding sublist_def by blast
qed

lemma sublist_str_dict_keys:
  assumes "k \<in> set ks"
  shows "sublist (repr k) (str_dict_keys ks)"
proof -
  from assms have "sublist (repr k) (join '', '' (map repr ks))"
    by (intro sublist_join) simp
  then obtain ps ss where "join '', '' (map repr ks) = ps @ repr k @ ss"
    by (auto simp: sublist_def)
  then have "str_dict_keys ks = (''dict_keys(['' @ ps) @ repr k @ (ss @ ''])'')"
    by (simp add: str_dict_keys_def)
  then show ?thesis
    unfolding sublist_def by blast
qed

subsection \<open>Both modes on a new and on a known name\<close>

lemma name_for_given: "name_for (PyStr name) obj = Inr (PyStr name)"
  by (simp add: name_for_def)

lemma name_for_intrinsic: "name_for PyNone (PyDef a name) = Inr (PyStr name)"
  by (simp add: name_for_def)

lemma deco_fresh:
  assumes "name_for m target = Inr (PyStr name)"
    and "\<not> dict_contains (self_obj_map self) (upper name)"
  shows "deco m self target =
           (Inr target, self\<lparr>self_obj_map := self_obj_map self @ [(upper name, target)]\<rparr>)"
  using assms by (simp add: deco_def do_register_fresh)

lemma deco_duplicate:
  assumes "name_for m target = Inr (PyStr name)"
    and "dict_contains (self_obj_map self) (upper name)"
  shows "deco m self target =
           (Inl (AssertionError (already_registered_msg (upper name) (self_name self))), self)"
  using assms by (simp add: deco_def do_register_duplicate)

lemma register_duplicate:
  assumes "obj \<noteq> PyNone"
    and "name_for m obj = Inr (PyStr name)"
    and "dict_contains (self_obj_map self) (upper name)"
  shows "register self m obj =
           (Inl (AssertionError (already_registered_msg (upper name) (self_name self))), self)"
  using assms by (simp add: register_def do_register_duplicate)

subsection \<open>The decorator, and names that differ in case\<close>

lemma deco_returns_target:
  "deco m self target = (Inr x, s) \<Longrightarrow> x = target"
  by (auto simp: deco_def split: sum.splits prod.splits)

lemma register_as_deco:
  "target \<noteq> PyNone \<Longrightarrow>
   register self m target =
     (case deco m self target of
        (Inl e, s) \<Rightarrow> (Inl e, s)
      | (Inr t, s) \<Rightarrow> (Inr Returned_None, s))"
  by (simp add: register_def deco_def split: sum.splits prod.splits)

lemma do_register_upper_only:
  "upper name' = upper name \<Longrightarrow>
   do_register self (PyStr name') obj = do_register self (PyStr name) obj"
  by (simp add: do_register_def)

lemma get_upper_only:
  "upper name' = upper name \<Longrightarrow> get self (PyStr name') = get self (PyStr name)"
  by (simp add: get_def)

lemma Registry_invariant:
  "(\<forall>k \<in> set (dict_keys (self_obj_map (Registry name))). upper k = k)"
  "distinct (dict_keys (self_obj_map (Registry name)))"
  by (simp_all add: Registry_def dict_keys_def)

lemma exec_appends:
  "exec self c = self \<or>
   (\<exists>k v. \<not> dict_contains (self_obj_map self) k \<and>
          self_obj_map (exec self c) = self_obj_map self @ [(k, v)])"
  using exec_step [of self c] by auto

subsection \<open>The claims\<close>

text \<open>
  C1. An object registered by a direct call (\<^verbatim>\<open>obj\<close> supplied, so not \<^verbatim>\<open>None\<close>), under
  \<^verbatim>\<open>module_name\<close> or, without one, under its own \<^verbatim>\<open>__name__\<close>, on a registry that does not
  have the upper-cased name yet: the call returns, appends the entry, and from then on, after
  any further calls, \<^verbatim>\<open>get(v)\<close> returns that very object for every \<open>v\<close> whose upper-case
  form is that of the name.
\<close>

theorem registered_object_is_returned:
  assumes "obj \<noteq> PyNone"
    and "m = PyStr name \<or> (m = PyNone \<and> obj = PyDef a name)"
    and "\<not> dict_contains (self_obj_map self) (upper name)"
    and "upper v = upper name"
  shows "register self m obj =
           (Inr Returned_None, self\<lparr>self_obj_map := self_obj_map self @ [(upper name, obj)]\<rparr>)
         \<and> (\<forall>cs. get (run (snd (register self m obj)) cs) (PyStr v) =
                    (Inr obj, run (snd (register self m obj)) cs))"
proof -
  let ?self' = "self\<lparr>self_obj_map := self_obj_map self @ [(upper name, obj)]\<rparr>"
  from assms(1,2) have "name_for m obj = Inr (PyStr name)"
    by (auto simp: name_for_def)
  with assms(1,3) have reg: "register self m obj = (Inr Returned_None, ?self')"
    by (simp add: register_def do_register_fresh)
  have "map_of (self_obj_map ?self') (upper v) = Some obj"
    using assms(3,4) map_of_append_new [of "self_obj_map self" "upper name" obj] by simp
  then have "map_of (self_obj_map (run ?self' cs)) (upper v) = Some obj" for cs
    by (rule run_keeps_entry)
  then have "get (run ?self' cs) (PyStr v) = (Inr obj, run ?self' cs)" for cs
    using assms(1) by (simp add: get_present)
  with reg show ?thesis
    by simp
qed

theorem registered_object_is_returned_witness:
  "PyInt 42 \<noteq> PyNone
   \<and> \<not> dict_contains (self_obj_map (Registry ''TEST'')) (upper ''Alpha'')
   \<and> upper ''aLPHa'' = upper ''Alpha''
   \<and> register (Registry ''TEST'') (PyStr ''Alpha'') (PyInt 42) =
       (Inr Returned_None, \<lparr>self_name = ''TEST'', self_obj_map = [(''ALPHA'', PyInt 42)]\<rparr>)
   \<and> get (run (snd (register (Registry ''TEST'') (PyStr ''Alpha'') (PyInt 42)))
             [Call_register (PyStr ''ALPHA'') (PyInt 99), Call_get (PyStr ''missing'')])
         (PyStr ''aLPHa'') =
       (Inr (PyInt 42), \<lparr>self_name = ''TEST'', self_obj_map = [(''ALPHA'', PyInt 42)]\<rparr>)"
proof -
  have h1: "PyInt 42 \<noteq> PyNone"
    by simp
  have h2: "PyStr ''Alpha'' = PyStr ''Alpha'' \<or> (PyStr ''Alpha'' = PyNone \<and> PyInt 42 = PyDef 0 ''Alpha'')"
    by simp
  have h3: "\<not> dict_contains (self_obj_map (Registry ''TEST'')) (upper ''Alpha'')"
    by code_simp
  have h4: "upper ''aLPHa'' = upper ''Alpha''"
    by code_simp
  have e: "run (snd (register (Registry ''TEST'') (PyStr ''Alpha'') (PyInt 42)))
             [Call_register (PyStr ''ALPHA'') (PyInt 99), Call_get (PyStr ''missing'')] =
           \<lparr>self_name = ''TEST'', self_obj_map = [(''ALPHA'', PyInt 42)]\<rparr>"
    by code_simp
  have u: "Registry ''TEST''\<lparr>self_obj_map := self_obj_map (Registry ''TEST'') @ [(upper ''Alpha'', PyInt 42)]\<rparr>
           = \<lparr>self_name = ''TEST'', self_obj_map = [(''ALPHA'', PyInt 42)]\<rparr>"
    by code_simp
  from registered_object_is_returned [OF h1 h2 h3 h4] h1 h3 h4 e u show ?thesis
    by (metis (no_types))
qed

text \<open>
  C2, amended. When the upper-cased name is already a key of the dict, a registration under
  that name raises \<^verbatim>\<open>AssertionError\<close> (the spec's DuplicateRegistrationError) and leaves the
  registry as it was, in both modes: \<^verbatim>\<open>register(m, obj)\<close> with an object, and the decorator
  of \<^verbatim>\<open>register(m)\<close> applied to a target. The entry that was there stays, and \<^verbatim>\<open>get\<close> on any
  case variant of the name returns its object when that object is not \<^verbatim>\<open>None\<close>.
\<close>

theorem duplicate_registration_raises:
  assumes "dict_contains (self_obj_map self) (upper name)"
    and "m = PyStr name \<or> (m = PyNone \<and> obj = PyDef a name)"
  shows "(obj \<noteq> PyNone \<longrightarrow>
            register self m obj =
              (Inl (AssertionError (already_registered_msg (upper name) (self_name self))), self))
         \<and> deco m self obj =
              (Inl (AssertionError (already_registered_msg (upper name) (self_name self))), self)
         \<and> (\<forall>v first. upper v = upper name
                \<and> map_of (self_obj_map self) (upper name) = Some first \<and> first \<noteq> PyNone
              \<longrightarrow> get self (PyStr v) = (Inr first, self))"
proof -
  from assms(2) have "name_for m obj = Inr (PyStr name)"
    by (auto simp: name_for_def)
  with assms(1) show ?thesis
    by (simp add: register_duplicate deco_duplicate get_present)
qed

theorem duplicate_registration_raises_witness:
  "dict_contains (self_obj_map \<lparr>self_name = ''TEST'', self_obj_map = [(''ALPHA'', PyInt 42)]\<rparr>)
      (upper ''Alpha'')
   \<and> register \<lparr>self_name = ''TEST'', self_obj_map = [(''ALPHA'', PyInt 42)]\<rparr>
        (PyStr ''Alpha'') (PyInt 99) =
       (Inl (AssertionError ''An object named 'ALPHA' was already registered in 'TEST' registry!''),
        \<lparr>self_name = ''TEST'', self_obj_map = [(''ALPHA'', PyInt 42)]\<rparr>)
   \<and> deco (PyStr ''Alpha'') \<lparr>self_name = ''TEST'', self_obj_map = [(''ALPHA'', PyInt 42)]\<rparr>
        (PyInt 99) =
       (Inl (AssertionError ''An object named 'ALPHA' was already registered in 'TEST' registry!''),
        \<lparr>self_name = ''TEST'', self_obj_map = [(''ALPHA'', PyInt 42)]\<rparr>)
   \<and> get \<lparr>self_name = ''TEST'', self_obj_map = [(''ALPHA'', PyInt 42)]\<rparr> (PyStr ''alpha'') =
       (Inr (PyInt 42), \<lparr>self_name = ''TEST'', self_obj_map = [(''ALPHA'', PyInt 42)]\<rparr>)"
proof -
  let ?r = "\<lparr>self_name = ''TEST'', self_obj_map = [(''ALPHA'', PyInt 42)]\<rparr>"
  have h1: "dict_contains (self_obj_map ?r) (upper ''Alpha'')"
    by code_simp
  have h2: "PyStr ''Alpha'' = PyStr ''Alpha'' \<or> (PyStr ''Alpha'' = PyNone \<and> PyInt 99 = PyDef 0 ''Alpha'')"
    by simp
  have m: "already_registered_msg (upper ''Alpha'') (self_name ?r) =
           ''An object named 'ALPHA' was already registered in 'TEST' registry!''"
    by code_simp
  have g: "upper ''alpha'' = upper ''Alpha''
           \<and> map_of (self_obj_map ?r) (upper ''Alpha'') = Some (PyInt 42) \<and> PyInt 42 \<noteq> PyNone"
    by code_simp
  have n: "PyInt 99 \<noteq> PyNone"
    by simp
  note t = duplicate_registration_raises [OF h1 h2]
  from t n have r1: "register ?r (PyStr ''Alpha'') (PyInt 99) =
      (Inl (AssertionError (already_registered_msg (upper ''Alpha'') (self_name ?r))), ?r)"
    by blast
  from t have r2: "deco (PyStr ''Alpha'') ?r (PyInt 99) =
      (Inl (AssertionError (already_registered_msg (upper ''Alpha'') (self_name ?r))), ?r)"
    by blast
  from t g have r3: "get ?r (PyStr ''alpha'') = (Inr (PyInt 42), ?r)"
    by blast
  from h1 r1 r2 r3 show ?thesis
    unfolding m by blast
qed

text \<open>
  C2 as stated also promises that the first registration stays retrievable by \<^verbatim>\<open>get\<close>. That
  fails for a first registration of \<^verbatim>\<open>None\<close>: \<^verbatim>\<open>register('x')(None)\<close> on an empty registry
  stores \<^verbatim>\<open>None\<close> under \<^verbatim>\<open>X\<close>; registering \<^verbatim>\<open>5\<close> under \<^verbatim>\<open>x\<close> then raises and changes
  nothing; and \<^verbatim>\<open>get('x')\<close> raises \<^verbatim>\<open>KeyError\<close>.
\<close>

theorem duplicate_None_counterexample:
  "deco (PyStr ''x'') (Registry ''TEST'') PyNone =
     (Inr PyNone, \<lparr>self_name = ''TEST'', self_obj_map = [(''X'', PyNone)]\<rparr>)
   \<and> register \<lparr>self_name = ''TEST'', self_obj_map = [(''X'', PyNone)]\<rparr> (PyStr ''x'') (PyInt 5) =
       (Inl (AssertionError ''An object named 'X' was already registered in 'TEST' registry!''),
        \<lparr>self_name = ''TEST'', self_obj_map = [(''X'', PyNone)]\<rparr>)
   \<and> get \<lparr>self_name = ''TEST'', self_obj_map = [(''X'', PyNone)]\<rparr> (PyStr ''x'') =
       (Inl (KeyError ''No object named 'X' found in 'TEST' registry[dict_keys(['X'])]!''),
        \<lparr>self_name = ''TEST'', self_obj_map = [(''X'', PyNone)]\<rparr>)"
  by code_simp

text \<open>
  C3. For a name whose upper-case form is not a key of the dict, \<^verbatim>\<open>get(name)\<close> raises
  \<^verbatim>\<open>KeyError\<close> (the spec's NotFoundError) and leaves the registry as it was. The message is
  the format string filled in: it holds the upper-cased name and the registry's name, each
  between quotes, and the \<^verbatim>\<open>dict_keys([...])\<close> rendering of all keys of the dict, so the
  \<^verbatim>\<open>repr\<close> of every key.
\<close>

theorem get_unknown_name_raises:
  assumes "\<not> dict_contains (self_obj_map self) (upper name)"
  shows "get self (PyStr name) =
           (Inl (KeyError (not_found_msg (upper name) (self_name self)
                             (dict_keys (self_obj_map self)))), self)
         \<and> sublist (quoted (upper name))
              (not_found_msg (upper name) (self_name self) (dict_keys (self_obj_map self)))
         \<and> sublist (quoted (self_name self))
              (not_found_msg (upper name) (self_name self) (dict_keys (self_obj_map self)))
         \<and> sublist (str_dict_keys (dict_keys (self_obj_map self)))
              (not_found_msg (upper name) (self_name self) (dict_keys (self_obj_map self)))
         \<and> (\<forall>k \<in> set (dict_keys (self_obj_map self)).
               sublist (repr k)
                 (not_found_msg (upper name) (self_name self) (dict_keys (self_obj_map self))))"
proof -
  let ?msg = "not_found_msg (upper name) (self_name self) (dict_keys (self_obj_map self))"
  have "sublist (repr k) ?msg" if "k \<in> set (dict_keys (self_obj_map self))" for k
    using sublist_str_dict_keys [OF that] sublist_not_found_msg(3) by (rule sublist_within)
  with assms show ?thesis
    by (simp add: get_absent sublist_not_found_msg)
qed

theorem get_unknown_name_raises_witness:
  "\<not> dict_contains (self_obj_map \<lparr>self_name = ''TEST'', self_obj_map = [(''ALPHA'', PyInt 42), (''DOWORK'', PyDef 1 ''doWork'')]\<rparr>)
        (upper ''missing'')
   \<and> get \<lparr>self_name = ''TEST'', self_obj_map = [(''ALPHA'', PyInt 42), (''DOWORK'', PyDef 1 ''doWork'')]\<rparr>
         (PyStr ''missing'') =
       (Inl (KeyError ''No object named 'MISSING' found in 'TEST' registry[dict_keys(['ALPHA', 'DOWORK'])]!''),
        \<lparr>self_name = ''TEST'', self_obj_map = [(''ALPHA'', PyInt 42), (''DOWORK'', PyDef 1 ''doWork'')]\<rparr>)"
proof -
  let ?r = "\<lparr>self_name = ''TEST'', self_obj_map = [(''ALPHA'', PyInt 42), (''DOWORK'', PyDef 1 ''doWork'')]\<rparr>"
  have h: "\<not> dict_contains (self_obj_map ?r) (upper ''missing'')"
    by code_simp
  have m: "not_found_msg (upper ''missing'') (self_name ?r) (dict_keys (self_obj_map ?r)) =
           ''No object named 'MISSING' found in 'TEST' registry[dict_keys(['ALPHA', 'DOWORK'])]!''"
    by code_simp
  from get_unknown_name_raises [OF h] h m show ?thesis
    by (metis (no_types))
qed

text \<open>
  C4. Decorator mode. \<^verbatim>\<open>register(m)\<close> (\<^verbatim>\<open>obj\<close> omitted) returns the decorator and leaves the
  registry alone. Applied to a target, the decorator registers the target under \<open>m\<close> when
  \<open>m\<close> is given, else under the target's \<^verbatim>\<open>__name__\<close>: on a new upper-cased name it appends
  that entry and returns the target itself. Whenever it returns, it returns the target. And
  its effect on the registry is that of the direct call \<^verbatim>\<open>register(m, target)\<close>: same
  registry afterwards, same exception if any.
\<close>

theorem decorator_mode:
  "register self m PyNone = (Inr (Returned_deco m), self)
   \<and> ((m = PyStr name \<or> (m = PyNone \<and> target = PyDef a name))
        \<and> \<not> dict_contains (self_obj_map self) (upper name) \<longrightarrow>
      deco m self target =
        (Inr target, self\<lparr>self_obj_map := self_obj_map self @ [(upper name, target)]\<rparr>))
   \<and> (\<forall>x s. deco m self target = (Inr x, s) \<longrightarrow> x = target)
   \<and> (target \<noteq> PyNone \<longrightarrow>
      register self m target =
        (case deco m self target of
           (Inl e, s) \<Rightarrow> (Inl e, s)
         | (Inr t, s) \<Rightarrow> (Inr Returned_None, s)))"
proof -
  have "register self m PyNone = (Inr (Returned_deco m), self)"
    by (simp add: register_def)
  moreover have "deco m self target =
      (Inr target, self\<lparr>self_obj_map := self_obj_map self @ [(upper name, target)]\<rparr>)"
    if "m = PyStr name \<or> (m = PyNone \<and> target = PyDef a name)"
      and "\<not> dict_contains (self_obj_map self) (upper name)"
  proof -
    from that(1) have "name_for m target = Inr (PyStr name)"
      by (auto simp: name_for_def)
    then show ?thesis
      using that(2) by (rule deco_fresh)
  qed
  ultimately show ?thesis
    using deco_returns_target [of m self target] register_as_deco [of target self m]
    by blast
qed

theorem decorator_mode_witness:
  "\<not> dict_contains (self_obj_map (Registry ''TEST'')) (upper ''doWork'')
   \<and> register (Registry ''TEST'') PyNone PyNone = (Inr (Returned_deco PyNone), Registry ''TEST'')
   \<and> deco PyNone (Registry ''TEST'') (PyDef 7 ''doWork'') =
       (Inr (PyDef 7 ''doWork''),
        \<lparr>self_name = ''TEST'', self_obj_map = [(''DOWORK'', PyDef 7 ''doWork'')]\<rparr>)
   \<and> register (Registry ''TEST'') PyNone (PyDef 7 ''doWork'') =
       (Inr Returned_None,
        \<lparr>self_name = ''TEST'', self_obj_map = [(''DOWORK'', PyDef 7 ''doWork'')]\<rparr>)
   \<and> get \<lparr>self_name = ''TEST'', self_obj_map = [(''DOWORK'', PyDef 7 ''doWork'')]\<rparr>
         (PyStr ''DoWork'') =
       (Inr (PyDef 7 ''doWork''),
        \<lparr>self_name = ''TEST'', self_obj_map = [(''DOWORK'', PyDef 7 ''doWork'')]\<rparr>)"
proof -
  let ?r = "\<lparr>self_name = ''TEST'', self_obj_map = [(''DOWORK'', PyDef 7 ''doWork'')]\<rparr>"
  note t = decorator_mode [of "Registry ''TEST''" PyNone "''doWork''" "PyDef 7 ''doWork''" 7]
  have h: "\<not> dict_contains (self_obj_map (Registry ''TEST'')) (upper ''doWork'')"
    by code_simp
  have e: "Registry ''TEST''\<lparr>self_obj_map :=
             self_obj_map (Registry ''TEST'') @ [(upper ''doWork'', PyDef 7 ''doWork'')]\<rparr> = ?r"
    by code_simp
  from t have r1: "register (Registry ''TEST'') PyNone PyNone =
      (Inr (Returned_deco PyNone), Registry ''TEST'')"
    by blast
  from t h have "deco PyNone (Registry ''TEST'') (PyDef 7 ''doWork'') =
      (Inr (PyDef 7 ''doWork''),
       Registry ''TEST''\<lparr>self_obj_map :=
         self_obj_map (Registry ''TEST'') @ [(upper ''doWork'', PyDef 7 ''doWork'')]\<rparr>)"
    by blast
  then have r2: "deco PyNone (Registry ''TEST'') (PyDef 7 ''doWork'') = (Inr (PyDef 7 ''doWork''), ?r)"
    unfolding e .
  from t have "register (Registry ''TEST'') PyNone (PyDef 7 ''doWork'') =
      (case deco PyNone (Registry ''TEST'') (PyDef 7 ''doWork'') of
         (Inl e, s) \<Rightarrow> (Inl e, s)
       | (Inr t, s) \<Rightarrow> (Inr Returned_None, s))"
    by simp
  then have r3: "register (Registry ''TEST'') PyNone (PyDef 7 ''doWork'') = (Inr Returned_None, ?r)"
    unfolding r2 by simp
  have r4: "get ?r (PyStr ''DoWork'') = (Inr (PyDef 7 ''doWork''), ?r)"
    by code_simp
  from h r1 r2 r3 r4 show ?thesis
    by blast
qed

text \<open>
  C5. In every registry reached from \<^verbatim>\<open>Registry(name)\<close> by a sequence of calls (both modes of
  \<^verbatim>\<open>register\<close>, \<^verbatim>\<open>get\<close>, indexing), every key of the dict is its own upper-case form and
  no key occurs twice. An entry, once there, maps its key to the same object after any
  further calls; and one more call either leaves the registry as it is or appends a single
  entry under a key that was not there. So each key holds the object of the one registration
  that succeeded for it.
\<close>

theorem reachable_registry_invariant:
  "(\<forall>k \<in> set (dict_keys (self_obj_map (run (Registry name) cs))). upper k = k)
   \<and> distinct (dict_keys (self_obj_map (run (Registry name) cs)))
   \<and> (\<forall>k v cs'. map_of (self_obj_map (run (Registry name) cs)) k = Some v \<longrightarrow>
         map_of (self_obj_map (run (Registry name) (cs @ cs'))) k = Some v)
   \<and> (\<forall>c. run (Registry name) (cs @ [c]) = run (Registry name) cs \<or>
         (\<exists>k v. \<not> dict_contains (self_obj_map (run (Registry name) cs)) k \<and>
            self_obj_map (run (Registry name) (cs @ [c])) =
              self_obj_map (run (Registry name) cs) @ [(k, v)]))"
proof -
  have "\<forall>k \<in> set (dict_keys (self_obj_map (run (Registry name) cs))). upper k = k"
    using Registry_invariant(1) by (rule run_keys_upper)
  moreover have "distinct (dict_keys (self_obj_map (run (Registry name) cs)))"
    using Registry_invariant(2) by (rule run_distinct)
  moreover have "map_of (self_obj_map (run (Registry name) (cs @ cs'))) k = Some v"
    if "map_of (self_obj_map (run (Registry name) cs)) k = Some v" for k v cs'
    unfolding run_append using that by (rule run_keeps_entry)
  moreover have "run (Registry name) (cs @ [c]) = run (Registry name) cs \<or>
      (\<exists>k v. \<not> dict_contains (self_obj_map (run (Registry name) cs)) k \<and>
         self_obj_map (run (Registry name) (cs @ [c])) =
           self_obj_map (run (Registry name) cs) @ [(k, v)])" for c
    using exec_appends [of "run (Registry name) cs" c]
    by (simp add: run_append run_Cons run_Nil)
  ultimately show ?thesis
    by blast
qed


theorem reachable_registry_invariant_witness:
  "run (Registry ''TEST'')
     [Call_register (PyStr ''Alpha'') (PyInt 42), Call_register (PyStr ''ALPHA'') (PyInt 99),
      Call_deco PyNone (PyDef 7 ''doWork''), Call_get (PyStr ''missing'')] =
     \<lparr>self_name = ''TEST'',
        self_obj_map = [(''ALPHA'', PyInt 42), (''DOWORK'', PyDef 7 ''doWork'')]\<rparr>
   \<and> upper ''ALPHA'' = ''ALPHA'' \<and> upper ''DOWORK'' = ''DOWORK''
   \<and> distinct [''ALPHA'', ''DOWORK'']
   \<and> map_of (self_obj_map (run (Registry ''TEST'')
         ([Call_register (PyStr ''Alpha'') (PyInt 42), Call_register (PyStr ''ALPHA'') (PyInt 99),
           Call_deco PyNone (PyDef 7 ''doWork''), Call_get (PyStr ''missing'')]
          @ [Call_deco (PyStr ''alpha'') (PyInt 1), Call_getitem (PyStr ''Alpha'')]))) ''ALPHA'' =
       Some (PyInt 42)"
proof -
  let ?cs = "[Call_register (PyStr ''Alpha'') (PyInt 42), Call_register (PyStr ''ALPHA'') (PyInt 99),
      Call_deco PyNone (PyDef 7 ''doWork''), Call_get (PyStr ''missing'')]"
  let ?r = "\<lparr>self_name = ''TEST'',
        self_obj_map = [(''ALPHA'', PyInt 42), (''DOWORK'', PyDef 7 ''doWork'')]\<rparr>"
  note t = reachable_registry_invariant [of "''TEST''" ?cs]
  have e: "run (Registry ''TEST'') ?cs = ?r"
    by code_simp
  have ks: "dict_keys (self_obj_map ?r) = [''ALPHA'', ''DOWORK'']"
    by (simp add: dict_keys_def)
  from t have "\<forall>k \<in> set (dict_keys (self_obj_map (run (Registry ''TEST'') ?cs))). upper k = k"
    by blast
  then have u: "upper ''ALPHA'' = ''ALPHA'' \<and> upper ''DOWORK'' = ''DOWORK''"
    unfolding e ks by simp
  from t have "distinct (dict_keys (self_obj_map (run (Registry ''TEST'') ?cs)))"
    by blast
  then have d: "distinct [''ALPHA'', ''DOWORK'']"
    unfolding e ks .
  have "map_of (self_obj_map (run (Registry ''TEST'') ?cs)) ''ALPHA'' = Some (PyInt 42)"
    unfolding e by simp
  with t have k: "map_of (self_obj_map (run (Registry ''TEST'')
      (?cs @ [Call_deco (PyStr ''alpha'') (PyInt 1), Call_getitem (PyStr ''Alpha'')]))) ''ALPHA'' =
      Some (PyInt 42)"
    by blast
  from e u d k show ?thesis
    by blast
qed

text \<open>
  C6. Indexed access \<^verbatim>\<open>registry[name]\<close> does what \<^verbatim>\<open>registry.get(name)\<close> does, for every
  registry and every name: the same object when \<^verbatim>\<open>get\<close> returns, the same exception when it
  raises, and the same registry afterwards.
\<close>

theorem getitem_is_get:
  "getitem self name = get self name"
  by (simp add: getitem_def)

text \<open>
  C7, amended. A registration inserts the name converted to upper case as the key, and uses
  nothing else of the name: the duplicate check and the message of the assertion are on the
  upper-cased name, so two names with the same upper-case form give the same outcome of
  \<^verbatim>\<open>_do_register\<close> and of \<^verbatim>\<open>get\<close>, message and registry included. The spelling the caller
  used is not kept.
\<close>

theorem only_the_uppercase_name_is_used:
  "(\<not> dict_contains (self_obj_map self) (upper name) \<longrightarrow>
      do_register self (PyStr name) obj =
        (Inr (), self\<lparr>self_obj_map := self_obj_map self @ [(upper name, obj)]\<rparr>))
   \<and> (dict_contains (self_obj_map self) (upper name) \<longrightarrow>
      do_register self (PyStr name) obj =
        (Inl (AssertionError (already_registered_msg (upper name) (self_name self))), self))
   \<and> (\<forall>name'. upper name' = upper name \<longrightarrow>
         do_register self (PyStr name') obj = do_register self (PyStr name) obj
         \<and> get self (PyStr name') = get self (PyStr name))"
  using do_register_fresh [of self name obj] do_register_duplicate [of self name obj]
    do_register_upper_only [of _ name self obj] get_upper_only [of _ name self]
  by blast

theorem only_the_uppercase_name_is_used_witness:
  "\<not> dict_contains (self_obj_map (Registry ''TEST'')) (upper ''Foo'')
   \<and> do_register (Registry ''TEST'') (PyStr ''Foo'') (PyInt 1) =
       (Inr (), \<lparr>self_name = ''TEST'', self_obj_map = [(''FOO'', PyInt 1)]\<rparr>)
   \<and> upper ''fOO'' = upper ''Foo''
   \<and> do_register (Registry ''TEST'') (PyStr ''fOO'') (PyInt 1) =
       (Inr (), \<lparr>self_name = ''TEST'', self_obj_map = [(''FOO'', PyInt 1)]\<rparr>)"
proof -
  note t = only_the_uppercase_name_is_used [of "Registry ''TEST''" "''Foo''" "PyInt 1"]
  have h: "\<not> dict_contains (self_obj_map (Registry ''TEST'')) (upper ''Foo'')"
    by code_simp
  have v: "upper ''fOO'' = upper ''Foo''"
    by code_simp
  have e: "Registry ''TEST''\<lparr>self_obj_map :=
             self_obj_map (Registry ''TEST'') @ [(upper ''Foo'', PyInt 1)]\<rparr> =
           \<lparr>self_name = ''TEST'', self_obj_map = [(''FOO'', PyInt 1)]\<rparr>"
    by code_simp
  from t h have "do_register (Registry ''TEST'') (PyStr ''Foo'') (PyInt 1) =
      (Inr (), Registry ''TEST''\<lparr>self_obj_map :=
                 self_obj_map (Registry ''TEST'') @ [(upper ''Foo'', PyInt 1)]\<rparr>)"
    by blast
  then have r1: "do_register (Registry ''TEST'') (PyStr ''Foo'') (PyInt 1) =
      (Inr (), \<lparr>self_name = ''TEST'', self_obj_map = [(''FOO'', PyInt 1)]\<rparr>)"
    unfolding e .
  from t v have "do_register (Registry ''TEST'') (PyStr ''fOO'') (PyInt 1) =
      do_register (Registry ''TEST'') (PyStr ''Foo'') (PyInt 1)"
    by blast
  with r1 have r2: "do_register (Registry ''TEST'') (PyStr ''fOO'') (PyInt 1) =
      (Inr (), \<lparr>self_name = ''TEST'', self_obj_map = [(''FOO'', PyInt 1)]\<rparr>)"
    by simp
  from h r1 v r2 show ?thesis
    by blast
qed

text \<open>
  C7 as stated has the original name kept for the error messages. Registering \<^verbatim>\<open>Foo\<close> stores
  the key \<^verbatim>\<open>FOO\<close> only; registering \<^verbatim>\<open>Foo\<close> again raises with a message that names
  \<^verbatim>\<open>FOO\<close> and does not contain \<^verbatim>\<open>Foo\<close>; and \<^verbatim>\<open>get('Bar')\<close> raises with a message that
  names \<^verbatim>\<open>BAR\<close> and does not contain \<^verbatim>\<open>Bar\<close>.
\<close>

theorem original_name_not_kept_counterexample:
  "register (Registry ''TEST'') (PyStr ''Foo'') (PyInt 1) =
     (Inr Returned_None, \<lparr>self_name = ''TEST'', self_obj_map = [(''FOO'', PyInt 1)]\<rparr>)
   \<and> register \<lparr>self_name = ''TEST'', self_obj_map = [(''FOO'', PyInt 1)]\<rparr>
        (PyStr ''Foo'') (PyInt 2) =
       (Inl (AssertionError ''An object named 'FOO' was already registered in 'TEST' registry!''),
        \<lparr>self_name = ''TEST'', self_obj_map = [(''FOO'', PyInt 1)]\<rparr>)
   \<and> \<not> sublist ''Foo'' ''An object named 'FOO' was already registered in 'TEST' registry!''
   \<and> get \<lparr>self_name = ''TEST'', self_obj_map = [(''FOO'', PyInt 1)]\<rparr> (PyStr ''Bar'') =
       (Inl (KeyError ''No object named 'BAR' found in 'TEST' registry[dict_keys(['FOO'])]!''),
        \<lparr>self_name = ''TEST'', self_obj_map = [(''FOO'', PyInt 1)]\<rparr>)
   \<and> \<not> sublist ''Bar'' ''No object named 'BAR' found in 'TEST' registry[dict_keys(['FOO'])]!''"
  by code_simp

text \<open>
  C8. \<^verbatim>\<open>get(name)\<close> and \<^verbatim>\<open>registry[name]\<close> leave the registry as it was, name and dict,
  for every registry and every argument, whether the call returns an object or raises.
\<close>

theorem get_leaves_registry_unchanged:
  "snd (get self name) = self \<and> snd (getitem self name) = self
   \<and> self_name (snd (get self name)) = self_name self
   \<and> self_obj_map (snd (get self name)) = self_obj_map self"
  by (simp add: getitem_def get_state)

text \<open>
  C9. \<^verbatim>\<open>get\<close> reads a stored \<^verbatim>\<open>None\<close> as no entry. \<^verbatim>\<open>register(name)(None)\<close>, the decorator
  of an explicit \<^verbatim>\<open>module_name\<close> applied to \<^verbatim>\<open>None\<close>, stores \<^verbatim>\<open>None\<close> under the upper-cased
  name when that is new; then the key is in the dict and \<^verbatim>\<open>get\<close> on every case variant of
  the name raises \<^verbatim>\<open>KeyError\<close>. The same holds in any registry that has \<^verbatim>\<open>None\<close> stored under
  the upper-cased name.
\<close>

theorem stored_None_is_not_found:
  assumes "\<not> dict_contains (self_obj_map self) (upper name)"
    and "upper v = upper name"
  shows "deco (PyStr name) self PyNone =
           (Inr PyNone, self\<lparr>self_obj_map := self_obj_map self @ [(upper name, PyNone)]\<rparr>)
         \<and> dict_contains (self_obj_map (snd (deco (PyStr name) self PyNone))) (upper v)
         \<and> get (snd (deco (PyStr name) self PyNone)) (PyStr v) =
             (Inl (KeyError (not_found_msg (upper v) (self_name self)
                               (dict_keys (self_obj_map self) @ [upper name]))),
              snd (deco (PyStr name) self PyNone))
         \<and> (\<forall>r. map_of (self_obj_map r) (upper v) = Some PyNone \<longrightarrow>
                 dict_contains (self_obj_map r) (upper v)
                 \<and> get r (PyStr v) =
                     (Inl (KeyError (not_found_msg (upper v) (self_name r)
                                       (dict_keys (self_obj_map r)))), r))"
proof -
  let ?self' = "self\<lparr>self_obj_map := self_obj_map self @ [(upper name, PyNone)]\<rparr>"
  have d: "deco (PyStr name) self PyNone = (Inr PyNone, ?self')"
    using assms(1) by (simp add: deco_fresh name_for_given)
  have stored: "map_of (self_obj_map ?self') (upper v) = Some PyNone"
    using assms map_of_append_new [of "self_obj_map self" "upper name" PyNone] by simp
  have c: "dict_contains (self_obj_map ?self') (upper v)"
    using assms(2) by (simp add: dict_contains_append)
  have g: "get ?self' (PyStr v) =
             (Inl (KeyError (not_found_msg (upper v) (self_name self)
                               (dict_keys (self_obj_map self) @ [upper name]))), ?self')"
    using get_stored_None [OF stored] by (simp add: dict_keys_def)
  have general: "\<forall>r. map_of (self_obj_map r) (upper v) = Some PyNone \<longrightarrow>
      dict_contains (self_obj_map r) (upper v)
      \<and> get r (PyStr v) =
          (Inl (KeyError (not_found_msg (upper v) (self_name r) (dict_keys (self_obj_map r)))), r)"
    by (simp add: dict_contains_map_of get_stored_None)
  from c g have "dict_contains (self_obj_map (snd (deco (PyStr name) self PyNone))) (upper v)"
    and "get (snd (deco (PyStr name) self PyNone)) (PyStr v) =
           (Inl (KeyError (not_found_msg (upper v) (self_name self)
                             (dict_keys (self_obj_map self) @ [upper name]))),
            snd (deco (PyStr name) self PyNone))"
    unfolding d by simp_all
  with d general show ?thesis
    by blast
qed

theorem stored_None_is_not_found_witness:
  "\<not> dict_contains (self_obj_map (Registry ''TEST'')) (upper ''Head'')
   \<and> upper ''hEAD'' = upper ''Head''
   \<and> deco (PyStr ''Head'') (Registry ''TEST'') PyNone =
       (Inr PyNone, \<lparr>self_name = ''TEST'', self_obj_map = [(''HEAD'', PyNone)]\<rparr>)
   \<and> dict_contains (self_obj_map (snd (deco (PyStr ''Head'') (Registry ''TEST'') PyNone)))
        (upper ''hEAD'')
   \<and> get (snd (deco (PyStr ''Head'') (Registry ''TEST'') PyNone)) (PyStr ''hEAD'') =
       (Inl (KeyError ''No object named 'HEAD' found in 'TEST' registry[dict_keys(['HEAD'])]!''),
        \<lparr>self_name = ''TEST'', self_obj_map = [(''HEAD'', PyNone)]\<rparr>)"
proof -
  have h1: "\<not> dict_contains (self_obj_map (Registry ''TEST'')) (upper ''Head'')"
    by code_simp
  have h2: "upper ''hEAD'' = upper ''Head''"
    by code_simp
  have e: "Registry ''TEST''\<lparr>self_obj_map := self_obj_map (Registry ''TEST'') @ [(upper ''Head'', PyNone)]\<rparr>
           = \<lparr>self_name = ''TEST'', self_obj_map = [(''HEAD'', PyNone)]\<rparr>"
    by code_simp
  have m: "not_found_msg (upper ''hEAD'') (self_name (Registry ''TEST''))
             (dict_keys (self_obj_map (Registry ''TEST'')) @ [upper ''Head'']) =
           ''No object named 'HEAD' found in 'TEST' registry[dict_keys(['HEAD'])]!''"
    by code_simp
  from stored_None_is_not_found [OF h1 h2] h1 h2 e m show ?thesis
    by (metis (no_types) snd_conv)
qed

text \<open>
  C10. \<^verbatim>\<open>register(x)\<close> with one positional argument binds \<open>x\<close> to \<^verbatim>\<open>module_name\<close> and leaves
  \<^verbatim>\<open>obj\<close> at \<^verbatim>\<open>None\<close>: for every \<open>x\<close>, also the class of the docstring's
  \<^verbatim>\<open>BACKBONE_REGISTRY.register(MyBackbone)\<close>, the call returns the decorator and inserts
  nothing into the dict. For a class or function \<open>x\<close>, applying that decorator later
  registers nothing either: \<open>x\<close> is taken as the name, and \<^verbatim>\<open>x.upper()\<close> raises.
\<close>

theorem register_single_argument_registers_nothing:
  "register self x PyNone = (Inr (Returned_deco x), self)
   \<and> self_obj_map (snd (register self x PyNone)) = self_obj_map self
   \<and> deco (PyDef a n) self target = (Inl (AttributeError ''upper''), self)"
  by (simp add: register_def deco_def name_for_def do_register_def)

end
